theory Spec2Isabelle
  imports Main
begin

section \<open>The rich-text editor wrapper (src/components/editor.tsx)\<close>

text \<open>
  The component is a function from its props to an element tree, together with two
  lifecycle effects. Everything it touches outside its own arguments is kept in an explicit
  \<open>world\<close>: the calls it has made on the DOM, the widget instances constructed so far,
  the caller-owned reference cells and the record of callback invocations. JavaScript object
  references (DOM elements, functions, reference cells, widget instances) are addresses.
\<close>

subsection \<open>Data\<close>

type_synonym node = nat
type_synonym fn = nat
type_synonym cell = nat
type_synonym widget = nat

text \<open>Content operations of the widget's document format (\<open>Op\<close> of quill/core); a
  \<open>Delta\<close> is an object around a list of them.\<close>

datatype Op = Insert string | Delete nat | Retain nat

datatype DefaultValue = DeltaValue "Op list" | OpArray "Op list"

text \<open>\<open>EditorValue\<close>, lines 12-15: the payload of the submit callback.\<close>

record EditorValue =
  image_file :: "nat option"
  body :: string

datatype Variant = Create | Update

text \<open>\<open>EditorProps\<close>, lines 17-25. An optional prop that the caller leaves out is
  \<open>None\<close> (\<open>undefined\<close> in the source).\<close>

record EditorProps =
  onSubmit :: fn
  onCancel :: "fn option"
  placeholder :: "string option"
  defaultValue :: "DefaultValue option"
  disabled :: "bool option"
  innerRef :: "cell option"
  variant :: "Variant option"

text \<open>The destructuring defaults of lines 27-35.\<close>

definition placeholder_param :: "EditorProps \<Rightarrow> string" where
  "placeholder_param p = (case placeholder p of None \<Rightarrow> ''Write something...'' | Some s \<Rightarrow> s)"

definition defaultValue_param :: "EditorProps \<Rightarrow> DefaultValue" where
  "defaultValue_param p = (case defaultValue p of None \<Rightarrow> OpArray [] | Some v \<Rightarrow> v)"

definition disabled_param :: "EditorProps \<Rightarrow> bool" where
  "disabled_param p = (case disabled p of None \<Rightarrow> False | Some b \<Rightarrow> b)"

definition variant_param :: "EditorProps \<Rightarrow> Variant" where
  "variant_param p = (case variant p of None \<Rightarrow> Create | Some v \<Rightarrow> v)"

subsection \<open>The world outside the component\<close>

record QuillOptions =
  theme :: "string option"

text \<open>A widget instance keeps the element and the options its constructor received and the
  content operations of the document it holds (without the line break that ends every
  document, so the blank document is the empty list).\<close>

record Quill =
  q_container :: node
  q_options :: QuillOptions
  q_contents :: "Op list"

text \<open>The calls the component makes on the DOM, in the order it makes them. What the widget
  library does to the DOM on its own account is not the component's and is not recorded.\<close>

datatype dom_call =
    CreateElement string node
  | AppendChild node node
  | SetInnerHTML node string

datatype invocation = CallSubmit fn EditorValue | CallCancel fn

record world =
  fresh :: node
  dom_calls :: "dom_call list"
  quills :: "Quill list"
  cells :: "cell \<Rightarrow> widget option"
  invoked :: "invocation list"

text \<open>The six \<open>useRef\<close> cells of lines 37-42.\<close>

record EditorRefs =
  submitRef :: fn
  placeholderRef :: string
  quillRef :: "widget option"
  defaultValueRef :: DefaultValue
  containerRef :: "node option"
  disabledRef :: bool

subsection \<open>The element tree\<close>

datatype js_error = TypeError string

type_synonym state = "EditorRefs \<times> world"

text \<open>An event handler runs on the component's cells and the world; it either throws or
  returns the state it leaves behind.\<close>

type_synonym handler = "state \<Rightarrow> js_error + state"

record ButtonProps =
  btn_disabled :: bool
  btn_size :: "string option"
  btn_variant :: "string option"
  btn_className :: "string option"
  btn_onClick :: handler

datatype ref_target = ContainerRef

text \<open>The JSX of lines 72-147. \<open>Nothing\<close> is the value \<open>false\<close> that
  \<open>cond && element\<close> leaves in a child position when the condition fails.\<close>

datatype element =
    Div string "ref_target option" "element list"
  | Hint string "element list"
  | Button ButtonProps "element list"
  | Icon string string
  | P "element list"
  | Strong "element list"
  | Text string
  | Nothing

text \<open>\<open>() => {}\<close>: the handler every button is given.\<close>

definition empty_handler :: handler where
  "empty_handler s = Inr s"

definition Editor_render :: "EditorProps \<Rightarrow> element" where
  "Editor_render p =
    Div ''flex flex-col'' None
     [Div ''flex flex-col border border-slate-200 rounded-md overflow-hidden focus-within:border-slate-300 focus-within:shadow-sm transition bg-white'' None
       [Div ''h-full ql-custom'' (Some ContainerRef) [],
        Div ''flex px-2 pb-2 z-5'' None
         [Hint ''Hide formatting''
           [Button \<lparr>btn_disabled = False, btn_size = Some ''icon-sm'', btn_variant = Some ''ghost'',
                    btn_className = None, btn_onClick = empty_handler\<rparr>
             [Icon ''PiTextAa'' ''size-4'']],
          Hint ''Emoji''
           [Button \<lparr>btn_disabled = False, btn_size = Some ''icon-sm'', btn_variant = Some ''ghost'',
                    btn_className = None, btn_onClick = empty_handler\<rparr>
             [Icon ''Smile'' ''size-4'']],
          (if variant_param p = Create then
             Hint ''Image''
              [Button \<lparr>btn_disabled = False, btn_size = Some ''icon-sm'', btn_variant = Some ''ghost'',
                       btn_className = None, btn_onClick = empty_handler\<rparr>
                [Icon ''ImageIcon'' ''size-4'']]
           else Nothing),
          (if variant_param p = Update then
             Div ''ml-auto flex items-center gap-x-2'' None
              [Button \<lparr>btn_disabled = False, btn_size = Some ''sm'', btn_variant = Some ''outline'',
                       btn_className = None, btn_onClick = empty_handler\<rparr>
                [Text ''Cancel''],
               Button \<lparr>btn_disabled = False, btn_size = Some ''sm'', btn_variant = None,
                       btn_className = Some ''bg-[#007a5a] hover:bg-[007a5a]/80 text-white'',
                       btn_onClick = empty_handler\<rparr>
                [Text ''Save'']]
           else Nothing),
          (if variant_param p = Create then
             Button \<lparr>btn_disabled = False, btn_size = Some ''icon-sm'', btn_variant = None,
                     btn_className = Some ''ml-auto bg-[#007a5a] hover:bg-[007a5a]/80 text-white'',
                     btn_onClick = empty_handler\<rparr>
              [Icon ''MdSend'' ''size-4'']
           else Nothing)]],
      Div ''p-2 text-[10px] text-muted-foreground flex justify-end'' None
       [P [Strong [Text ''Shift + Return''], Text '' to add a new line'']]]"

subsection \<open>Reading the element tree\<close>

text \<open>Every \<open>Button\<close> element of a tree, in document order, with its children.\<close>

fun buttons :: "element \<Rightarrow> (ButtonProps \<times> element list) list" where
  "buttons (Div c r es) = concat (map buttons es)"
| "buttons (Hint l es) = concat (map buttons es)"
| "buttons (Button b es) = (b, es) # concat (map buttons es)"
| "buttons (P es) = concat (map buttons es)"
| "buttons (Strong es) = concat (map buttons es)"
| "buttons (Icon n c) = []"
| "buttons (Text t) = []"
| "buttons Nothing = []"

text \<open>The six actions of the button row, told apart by what the button shows: its icon, or
  its caption.\<close>

datatype action = FormatToggle | Emoji | AttachImage | Cancel | Save | Send

fun action_of :: "element list \<Rightarrow> action option" where
  "action_of [Icon n c] =
     (if n = ''PiTextAa'' then Some FormatToggle
      else if n = ''Smile'' then Some Emoji
      else if n = ''ImageIcon'' then Some AttachImage
      else if n = ''MdSend'' then Some Send
      else None)"
| "action_of [Text t] =
     (if t = ''Cancel'' then Some Cancel
      else if t = ''Save'' then Some Save
      else None)"
| "action_of es = None"

definition actions :: "element \<Rightarrow> action option list" where
  "actions e = map (\<lambda>(b, es). action_of es) (buttons e)"

definition present :: "action \<Rightarrow> element \<Rightarrow> bool" where
  "present a e = (Some a \<in> set (actions e))"

subsection \<open>Clicking\<close>

text \<open>A click on a button runs its \<open>onClick\<close> handler, unless the button is disabled.\<close>

definition click :: "ButtonProps \<Rightarrow> state \<Rightarrow> js_error + state" where
  "click b s = (if btn_disabled b then Inr s else btn_onClick b s)"

text \<open>A sequence of clicks stops at the first handler that throws.\<close>

fun click_all :: "ButtonProps list \<Rightarrow> state \<Rightarrow> js_error + state" where
  "click_all [] s = Inr s"
| "click_all (b # bs) s = (case click b s of Inl e \<Rightarrow> Inl e | Inr s' \<Rightarrow> click_all bs s')"

subsection \<open>DOM and widget operations\<close>

text \<open>Reading a property of a reference, or calling a method on it, throws when the
  reference is \<open>null\<close>.\<close>

definition member :: "'a option \<Rightarrow> js_error + 'a" where
  "member x = (case x of None \<Rightarrow> Inl (TypeError ''Cannot read properties of null'')
               | Some a \<Rightarrow> Inr a)"

definition createElement :: "string \<Rightarrow> world \<Rightarrow> node \<times> world" where
  "createElement tag w =
     (fresh w, w\<lparr>fresh := Suc (fresh w),
                 dom_calls := dom_calls w @ [CreateElement tag (fresh w)]\<rparr>)"

text \<open>\<open>appendChild\<close> returns the child it was given.\<close>

definition appendChild :: "node \<Rightarrow> node \<Rightarrow> world \<Rightarrow> node \<times> world" where
  "appendChild parent child w =
     (child, w\<lparr>dom_calls := dom_calls w @ [AppendChild parent child]\<rparr>)"

definition set_innerHTML :: "node \<Rightarrow> string \<Rightarrow> world \<Rightarrow> world" where
  "set_innerHTML n html w = w\<lparr>dom_calls := dom_calls w @ [SetInnerHTML n html]\<rparr>"

text \<open>\<open>new Quill(element, options)\<close>: the new instance is the last of the world's
  instances, and its reference is its position among them. The element the component hands
  over is always a newly created, empty one, on which the widget starts with the blank
  document.\<close>

definition Quill_new :: "node \<Rightarrow> QuillOptions \<Rightarrow> world \<Rightarrow> widget \<times> world" where
  "Quill_new el opts w =
     (length (quills w),
      w\<lparr>quills := quills w @ [\<lparr>q_container = el, q_options = opts, q_contents = []\<rparr>]\<rparr>)"

subsection \<open>The two effects\<close>

text \<open>Lines 44-49: the value-sync effect.\<close>

definition layout_effect :: "EditorProps \<Rightarrow> EditorRefs \<Rightarrow> EditorRefs" where
  "layout_effect p r =
     r\<lparr>submitRef := onSubmit p,
       placeholderRef := placeholder_param p,
       defaultValueRef := defaultValue_param p,
       disabledRef := disabled_param p\<rparr>"

text \<open>Lines 65-69: the function the creation effect returns, closed over \<open>container\<close>.\<close>

definition creation_cleanup :: "node option \<Rightarrow> world \<Rightarrow> world" where
  "creation_cleanup container w =
     (case container of None \<Rightarrow> w | Some c \<Rightarrow> set_innerHTML c [] w)"

text \<open>Lines 51-70: the creation effect. It returns the world it leaves and the cleanup it
  registers, if any. The instance that \<open>new Quill\<close> returns is dropped.\<close>

definition creation_effect ::
  "EditorRefs \<Rightarrow> world \<Rightarrow> js_error + (world \<times> (world \<Rightarrow> world) option)" where
  "creation_effect r w =
     (if containerRef r = None then Inr (w, None)
      else
        let container = containerRef r in
        case member container of
          Inl e \<Rightarrow> Inl e
        | Inr c \<Rightarrow>
            let (child, w1) = createElement ''div'' w;
                (editorContainer, w2) = appendChild c child w1;
                options = \<lparr>theme = Some ''snow''\<rparr>;
                (q, w3) = Quill_new editorContainer options w2
            in Inr (w3, Some (creation_cleanup container)))"

subsection \<open>The component's life\<close>

text \<open>When an effect runs again after a render: one without a dependency array after every
  render, one with an array when some entry of the array has changed.\<close>

datatype dep = FnDep fn | StringDep string | ValueDep DefaultValue | BoolDep bool

datatype deps = EveryRender | Deps "dep list"

definition reruns :: "deps \<Rightarrow> deps \<Rightarrow> bool" where
  "reruns prev cur = (case (prev, cur) of (Deps a, Deps b) \<Rightarrow> a \<noteq> b | _ \<Rightarrow> True)"

text \<open>Line 49 gives the value-sync effect no array; line 70 gives the creation effect the
  empty one.\<close>

definition layout_effect_deps :: "EditorProps \<Rightarrow> deps" where
  "layout_effect_deps p = EveryRender"

definition creation_effect_deps :: "EditorProps \<Rightarrow> deps" where
  "creation_effect_deps p = Deps []"

record editor_instance =
  props :: EditorProps
  refs :: EditorRefs
  cleanup :: "(world \<Rightarrow> world) option"
  rendered :: element

text \<open>A render step has two parts, with the browser's paint between them. Before the paint
  the component function runs, the renderer attaches the \<open>ref\<close> attributes, and the effects
  registered with \<open>useLayoutEffect\<close> run; the effects registered with \<open>useEffect\<close> run
  after the paint.\<close>

text \<open>Mounting, up to the paint: the cells take their initial values (lines 37-42), the cell
  named by the \<open>ref\<close> attribute receives the element the renderer made for that \<open>div\<close>
  (\<open>host\<close>; \<open>None\<close> for a renderer that makes no elements), and the value-sync effect
  runs. The result is the cells as they are when the browser paints.\<close>

definition mount_before_paint :: "EditorProps \<Rightarrow> node option \<Rightarrow> EditorRefs" where
  "mount_before_paint p host =
     (let r0 = \<lparr>submitRef = onSubmit p,
                placeholderRef = placeholder_param p,
                quillRef = None,
                defaultValueRef = defaultValue_param p,
                containerRef = None,
                disabledRef = disabled_param p\<rparr>;
          r1 = r0\<lparr>containerRef := host\<rparr>
      in layout_effect p r1)"

text \<open>Mounting: the part before the paint, then the creation effect.\<close>

definition Editor_mount ::
  "EditorProps \<Rightarrow> node option \<Rightarrow> world \<Rightarrow> js_error + (editor_instance \<times> world)" where
  "Editor_mount p host w =
     (let out = Editor_render p;
          r2 = mount_before_paint p host
      in case creation_effect r2 w of
           Inl e \<Rightarrow> Inl e
         | Inr (w', cl) \<Rightarrow> Inr (\<lparr>props = p, refs = r2, cleanup = cl, rendered = out\<rparr>, w'))"

text \<open>A later render with new props, up to the paint: the cells keep their values, and the
  value-sync effect runs if its dependencies say so.\<close>

definition update_before_paint :: "EditorProps \<Rightarrow> editor_instance \<Rightarrow> EditorRefs" where
  "update_before_paint p i =
     (if reruns (layout_effect_deps (props i)) (layout_effect_deps p)
      then layout_effect p (refs i) else refs i)"

text \<open>A later render with new props: the part before the paint, then the creation effect if
  its dependencies say so. An effect that runs again first runs the cleanup its last run
  registered.\<close>

definition Editor_update ::
  "EditorProps \<Rightarrow> editor_instance \<Rightarrow> world \<Rightarrow> js_error + (editor_instance \<times> world)" where
  "Editor_update p i w =
     (let out = Editor_render p;
          r = update_before_paint p i
      in if reruns (creation_effect_deps (props i)) (creation_effect_deps p) then
           (let w1 = (case cleanup i of None \<Rightarrow> w | Some f \<Rightarrow> f w) in
            case creation_effect r w1 of
              Inl e \<Rightarrow> Inl e
            | Inr (w2, cl) \<Rightarrow> Inr (\<lparr>props = p, refs = r, cleanup = cl, rendered = out\<rparr>, w2))
         else Inr (\<lparr>props = p, refs = r, cleanup = cleanup i, rendered = out\<rparr>, w))"

fun Editor_updates ::
  "EditorProps list \<Rightarrow> editor_instance \<Rightarrow> world \<Rightarrow> js_error + (editor_instance \<times> world)" where
  "Editor_updates [] i w = Inr (i, w)"
| "Editor_updates (p # ps) i w =
     (case Editor_update p i w of
        Inl e \<Rightarrow> Inl e
      | Inr (i', w') \<Rightarrow> Editor_updates ps i' w')"

text \<open>A mount followed by renders with the props \<open>ps\<close>, one after the other.\<close>

definition Editor_run ::
  "EditorProps \<Rightarrow> EditorProps list \<Rightarrow> node option \<Rightarrow> world \<Rightarrow> js_error + (editor_instance \<times> world)" where
  "Editor_run p ps host w =
     (case Editor_mount p host w of
        Inl e \<Rightarrow> Inl e
      | Inr (i, w') \<Rightarrow> Editor_updates ps i w')"

text \<open>Unmounting runs the cleanup that the creation effect registered.\<close>

definition Editor_unmount :: "editor_instance \<Rightarrow> world \<Rightarrow> world" where
  "Editor_unmount i w = (case cleanup i of None \<Rightarrow> w | Some f \<Rightarrow> f w)"

text \<open>The world a mount with an attached container \<open>c\<close> leaves: one new element, appended
  to \<open>c\<close>, and one widget on it.\<close>

definition mounted :: "node \<Rightarrow> world \<Rightarrow> world" where
  "mounted c w =
     w\<lparr>fresh := Suc (fresh w),
       dom_calls := dom_calls w @ [CreateElement ''div'' (fresh w), AppendChild c (fresh w)],
       quills := quills w @
         [\<lparr>q_container = fresh w, q_options = \<lparr>theme = Some ''snow''\<rparr>, q_contents = []\<rparr>]\<rparr>"

text \<open>The four cells hold what a render with props \<open>p\<close> was given.\<close>

definition synced :: "EditorProps \<Rightarrow> EditorRefs \<Rightarrow> bool" where
  "synced p r =
     (submitRef r = onSubmit p \<and> placeholderRef r = placeholder_param p \<and>
      defaultValueRef r = defaultValue_param p \<and> disabledRef r = disabled_param p)"

text \<open>The operations a default value stands for (\<open>ops\<close> of a \<open>Delta\<close>, the array
  itself otherwise).\<close>

fun ops_of :: "DefaultValue \<Rightarrow> Op list" where
  "ops_of (DeltaValue ops) = ops"
| "ops_of (OpArray ops) = ops"

subsection \<open>Sample inputs\<close>

text \<open>A world in which nothing has happened yet; element 0 is the container the renderer
  made.\<close>

definition sample_world :: world where
  "sample_world =
     \<lparr>fresh = 1, dom_calls = [], quills = [], cells = (\<lambda>a. None), invoked = []\<rparr>"

definition sample_props :: EditorProps where
  "sample_props =
     \<lparr>onSubmit = 10, onCancel = None, placeholder = None,
      defaultValue = Some (OpArray [Insert ''hello'']), disabled = None,
      innerRef = Some 7, variant = None\<rparr>"

definition sample_create_props :: EditorProps where
  "sample_create_props =
     \<lparr>onSubmit = 20, onCancel = Some 21, placeholder = Some ''Message #general'',
      defaultValue = Some (DeltaValue [Insert ''draft'']), disabled = Some True,
      innerRef = None, variant = Some Create\<rparr>"

definition sample_refs :: EditorRefs where
  "sample_refs =
     \<lparr>submitRef = 10, placeholderRef = ''Write something...'', quillRef = None,
      defaultValueRef = OpArray [Insert ''hello''], containerRef = Some 0,
      disabledRef = False\<rparr>"

text \<open>Three clicks on the create variant: send, emoji, send again.\<close>

definition sample_clicks :: "ButtonProps list" where
  "sample_clicks =
     [\<lparr>btn_disabled = False, btn_size = Some ''icon-sm'', btn_variant = None,
       btn_className = Some ''ml-auto bg-[#007a5a] hover:bg-[007a5a]/80 text-white'',
       btn_onClick = empty_handler\<rparr>,
      \<lparr>btn_disabled = False, btn_size = Some ''icon-sm'', btn_variant = Some ''ghost'',
       btn_className = None, btn_onClick = empty_handler\<rparr>,
      \<lparr>btn_disabled = False, btn_size = Some ''icon-sm'', btn_variant = None,
       btn_className = Some ''ml-auto bg-[#007a5a] hover:bg-[007a5a]/80 text-white'',
       btn_onClick = empty_handler\<rparr>]"

section \<open>The button row\<close>

lemma actions_Create:
  "variant_param p = Create \<Longrightarrow>
   actions (Editor_render p) = [Some FormatToggle, Some Emoji, Some AttachImage, Some Send]"
  by (simp add: actions_def Editor_render_def)

lemma actions_Update:
  "variant_param p = Update \<Longrightarrow>
   actions (Editor_render p) = [Some FormatToggle, Some Emoji, Some Cancel, Some Save]"
  by (simp add: actions_def Editor_render_def)

text \<open>
  C1. Which buttons a render shows is decided by the \<open>variant\<close> prop. With
  \<open>variant = "update"\<close> cancel and save are shown and send and attach-image are not; with
  \<open>variant = "create"\<close>, and with the prop left out (it defaults to \<open>"create"\<close>), send
  and attach-image are shown and cancel and save are not. The formatting toggle and the
  emoji button are shown in every render.
\<close>

theorem variant_selects_buttons:
  "present Cancel (Editor_render p) = (variant p = Some Update) \<and>
   present Save (Editor_render p) = (variant p = Some Update) \<and>
   present Send (Editor_render p) = (variant p = Some Create \<or> variant p = None) \<and>
   present AttachImage (Editor_render p) = (variant p = Some Create \<or> variant p = None) \<and>
   present FormatToggle (Editor_render p) \<and>
   present Emoji (Editor_render p)"
proof (cases "variant p")
  case None
  then have "variant_param p = Create"
    by (simp add: variant_param_def)
  with None show ?thesis
    by (simp add: present_def actions_Create)
next
  case (Some v)
  show ?thesis
  proof (cases v)
    case Create
    with Some have "variant_param p = Create"
      by (simp add: variant_param_def)
    with Some Create show ?thesis
      by (simp add: present_def actions_Create)
  next
    case Update
    with Some have "variant_param p = Update"
      by (simp add: variant_param_def)
    with Some Update show ?thesis
      by (simp add: present_def actions_Update)
  qed
qed

section \<open>Lifecycle\<close>

lemma creation_effect_attached:
  "containerRef r = Some c \<Longrightarrow>
   creation_effect r w = Inr (mounted c w, Some (creation_cleanup (Some c)))"
  by (simp add: creation_effect_def member_def createElement_def appendChild_def
      Quill_new_def mounted_def)

lemma creation_effect_detached:
  "containerRef r = None \<Longrightarrow> creation_effect r w = Inr (w, None)"
  by (simp add: creation_effect_def)

lemma Editor_mount_attached:
  "Editor_mount p (Some c) w =
     Inr (\<lparr>props = p,
           refs = \<lparr>submitRef = onSubmit p, placeholderRef = placeholder_param p,
                   quillRef = None, defaultValueRef = defaultValue_param p,
                   containerRef = Some c, disabledRef = disabled_param p\<rparr>,
           cleanup = Some (creation_cleanup (Some c)),
           rendered = Editor_render p\<rparr>,
          mounted c w)"
  by (simp add: Editor_mount_def mount_before_paint_def layout_effect_def
      creation_effect_attached)

lemma Editor_mount_detached:
  "Editor_mount p None w =
     Inr (\<lparr>props = p,
           refs = \<lparr>submitRef = onSubmit p, placeholderRef = placeholder_param p,
                   quillRef = None, defaultValueRef = defaultValue_param p,
                   containerRef = None, disabledRef = disabled_param p\<rparr>,
           cleanup = None,
           rendered = Editor_render p\<rparr>,
          w)"
  by (simp add: Editor_mount_def mount_before_paint_def layout_effect_def
      creation_effect_detached)

lemma Editor_update_eq:
  "Editor_update p i w =
     Inr (\<lparr>props = p, refs = layout_effect p (refs i), cleanup = cleanup i,
           rendered = Editor_render p\<rparr>, w)"
  by (simp add: Editor_update_def update_before_paint_def reruns_def layout_effect_deps_def
      creation_effect_deps_def)

lemma Editor_updates_eq:
  "\<exists>i'. Editor_updates ps i w = Inr (i', w) \<and>
        cleanup i' = cleanup i \<and>
        containerRef (refs i') = containerRef (refs i) \<and>
        quillRef (refs i') = quillRef (refs i) \<and>
        (if ps = [] then i' = i else synced (last ps) (refs i'))"
proof (induction ps arbitrary: i)
  case Nil
  show ?case by simp
next
  case (Cons p ps)
  let ?j = "\<lparr>props = p, refs = layout_effect p (refs i), cleanup = cleanup i,
             rendered = Editor_render p\<rparr>"
  from Cons.IH [of ?j] obtain i' where
    run: "Editor_updates ps ?j w = Inr (i', w)" and
    cl: "cleanup i' = cleanup ?j" and
    co: "containerRef (refs i') = containerRef (refs ?j)" and
    qu: "quillRef (refs i') = quillRef (refs ?j)" and
    sy: "if ps = [] then i' = ?j else synced (last ps) (refs i')"
    by blast
  have "Editor_updates (p # ps) i w = Inr (i', w)"
    by (simp add: Editor_update_eq run)
  moreover have "cleanup i' = cleanup i"
    using cl by simp
  moreover have "containerRef (refs i') = containerRef (refs i)"
    using co by (simp add: layout_effect_def)
  moreover have "quillRef (refs i') = quillRef (refs i)"
    using qu by (simp add: layout_effect_def)
  moreover have "synced (last (p # ps)) (refs i')"
  proof (cases "ps = []")
    case True
    with sy have "i' = ?j" by simp
    with True show ?thesis by (simp add: synced_def layout_effect_def)
  next
    case False
    with sy show ?thesis by simp
  qed
  ultimately show ?case by auto
qed

lemma Editor_run_attached:
  "\<exists>i. Editor_run p ps (Some c) w = Inr (i, mounted c w) \<and>
       cleanup i = Some (creation_cleanup (Some c)) \<and>
       containerRef (refs i) = Some c \<and>
       quillRef (refs i) = None \<and>
       synced (last (p # ps)) (refs i)"
proof -
  let ?j = "\<lparr>props = p,
             refs = \<lparr>submitRef = onSubmit p, placeholderRef = placeholder_param p,
                     quillRef = None, defaultValueRef = defaultValue_param p,
                     containerRef = Some c, disabledRef = disabled_param p\<rparr>,
             cleanup = Some (creation_cleanup (Some c)),
             rendered = Editor_render p\<rparr>"
  from Editor_updates_eq [of ps ?j "mounted c w"] obtain i where
    run: "Editor_updates ps ?j (mounted c w) = Inr (i, mounted c w)" and
    cl: "cleanup i = cleanup ?j" and
    co: "containerRef (refs i) = containerRef (refs ?j)" and
    qu: "quillRef (refs i) = quillRef (refs ?j)" and
    sy: "if ps = [] then i = ?j else synced (last ps) (refs i)"
    by blast
  have "Editor_run p ps (Some c) w = Inr (i, mounted c w)"
    by (simp add: Editor_run_def Editor_mount_attached run)
  moreover have "synced (last (p # ps)) (refs i)"
    using sy by (cases "ps = []") (simp_all add: synced_def)
  ultimately show ?thesis
    using cl co qu by auto
qed

lemma Editor_run_detached:
  "\<exists>i. Editor_run p ps None w = Inr (i, w) \<and>
       cleanup i = None \<and>
       quillRef (refs i) = None \<and>
       synced (last (p # ps)) (refs i)"
proof -
  let ?j = "\<lparr>props = p,
             refs = \<lparr>submitRef = onSubmit p, placeholderRef = placeholder_param p,
                     quillRef = None, defaultValueRef = defaultValue_param p,
                     containerRef = None, disabledRef = disabled_param p\<rparr>,
             cleanup = None,
             rendered = Editor_render p\<rparr>"
  from Editor_updates_eq [of ps ?j w] obtain i where
    run: "Editor_updates ps ?j w = Inr (i, w)" and
    cl: "cleanup i = cleanup ?j" and
    qu: "quillRef (refs i) = quillRef (refs ?j)" and
    sy: "if ps = [] then i = ?j else synced (last ps) (refs i)"
    by blast
  have "Editor_run p ps None w = Inr (i, w)"
    by (simp add: Editor_run_def Editor_mount_detached run)
  moreover have "synced (last (p # ps)) (refs i)"
    using sy by (cases "ps = []") (simp_all add: synced_def)
  ultimately show ?thesis
    using cl qu by auto
qed

text \<open>
  C4. A mount with the container attached makes one new \<open>div\<close>, appends it to the
  container, and constructs one widget on that \<open>div\<close> with the theme \<open>snow\<close>; these are
  all the DOM calls and all the widgets of the mount, and however many renders with
  whatever props follow (\<open>ps\<close>), the world stays as the mount left it: the creation effect
  does not run again.
\<close>

theorem creation_runs_once_per_mount:
  "\<exists>i. Editor_run p ps (Some c) w =
     Inr (i, w\<lparr>fresh := Suc (fresh w),
               dom_calls := dom_calls w @
                 [CreateElement ''div'' (fresh w), AppendChild c (fresh w)],
               quills := quills w @
                 [\<lparr>q_container = fresh w, q_options = \<lparr>theme = Some ''snow''\<rparr>,
                   q_contents = []\<rparr>]\<rparr>)"
  using Editor_run_attached [of p ps c w] by (auto simp: mounted_def)

lemma layout_effect_holds_props:
  "submitRef (layout_effect q r) = onSubmit q \<and>
   placeholderRef (layout_effect q r) =
     (case placeholder q of None \<Rightarrow> ''Write something...'' | Some s \<Rightarrow> s) \<and>
   defaultValueRef (layout_effect q r) =
     (case defaultValue q of None \<Rightarrow> OpArray [] | Some v \<Rightarrow> v) \<and>
   disabledRef (layout_effect q r) = (case disabled q of None \<Rightarrow> False | Some b \<Rightarrow> b)"
  by (simp add: layout_effect_def placeholder_param_def defaultValue_param_def
      disabled_param_def)

lemma update_before_paint_eq: "update_before_paint q j = layout_effect q (refs j)"
  by (simp add: update_before_paint_def reruns_def layout_effect_deps_def)

lemma mount_before_paint_eq:
  "mount_before_paint p host =
     layout_effect p
       \<lparr>submitRef = onSubmit p, placeholderRef = placeholder_param p, quillRef = None,
        defaultValueRef = defaultValue_param p, containerRef = host,
        disabledRef = disabled_param p\<rparr>"
  by (simp add: mount_before_paint_def)

lemma Editor_mount_refs:
  "\<exists>i w'. Editor_mount p host w = Inr (i, w') \<and> refs i = mount_before_paint p host"
  by (cases host)
    (simp_all add: Editor_mount_attached Editor_mount_detached mount_before_paint_def
      layout_effect_def)

lemma Editor_update_refs:
  "\<exists>i w'. Editor_update q j w = Inr (i, w') \<and> refs i = update_before_paint q j"
  by (simp add: Editor_update_eq update_before_paint_eq)

text \<open>
  C5. After every render each of the four cells holds the value of its prop in that render
  (for a prop the caller left out, the default of lines 30-32), and holds it already when
  the browser paints:
  \<^item> after a mount with props \<open>p\<close> and renders with the props \<open>ps\<close>, whatever they are,
    the cells hold the values of the last props rendered;
  \<^item> at the paint of the mount the cells hold the values of \<open>p\<close>, and the part of the
    mount that runs after the paint leaves the cells as they were at the paint;
  \<^item> at the paint of a later render with props \<open>q\<close>, whatever the component instance
    \<open>j\<close> was before, the cells hold the values of \<open>q\<close>, and the part of the render that
    runs after the paint leaves the cells as they were at the paint.
\<close>

theorem cells_hold_latest_props:
  "(\<exists>i w'. Editor_run p ps host w = Inr (i, w') \<and>
      submitRef (refs i) = onSubmit (last (p # ps)) \<and>
      placeholderRef (refs i) =
        (case placeholder (last (p # ps)) of None \<Rightarrow> ''Write something...'' | Some s \<Rightarrow> s) \<and>
      defaultValueRef (refs i) =
        (case defaultValue (last (p # ps)) of None \<Rightarrow> OpArray [] | Some v \<Rightarrow> v) \<and>
      disabledRef (refs i) =
        (case disabled (last (p # ps)) of None \<Rightarrow> False | Some b \<Rightarrow> b)) \<and>
   (submitRef (mount_before_paint p host) = onSubmit p \<and>
    placeholderRef (mount_before_paint p host) =
      (case placeholder p of None \<Rightarrow> ''Write something...'' | Some s \<Rightarrow> s) \<and>
    defaultValueRef (mount_before_paint p host) =
      (case defaultValue p of None \<Rightarrow> OpArray [] | Some v \<Rightarrow> v) \<and>
    disabledRef (mount_before_paint p host) =
      (case disabled p of None \<Rightarrow> False | Some b \<Rightarrow> b)) \<and>
   (\<exists>i w'. Editor_mount p host w = Inr (i, w') \<and> refs i = mount_before_paint p host) \<and>
   (submitRef (update_before_paint q j) = onSubmit q \<and>
    placeholderRef (update_before_paint q j) =
      (case placeholder q of None \<Rightarrow> ''Write something...'' | Some s \<Rightarrow> s) \<and>
    defaultValueRef (update_before_paint q j) =
      (case defaultValue q of None \<Rightarrow> OpArray [] | Some v \<Rightarrow> v) \<and>
    disabledRef (update_before_paint q j) =
      (case disabled q of None \<Rightarrow> False | Some b \<Rightarrow> b)) \<and>
   (\<exists>i w'. Editor_update q j w = Inr (i, w') \<and> refs i = update_before_paint q j)"
proof -
  have run: "\<exists>i w'. Editor_run p ps host w = Inr (i, w') \<and> synced (last (p # ps)) (refs i)"
  proof (cases host)
    case None
    with Editor_run_detached [of p ps w] show ?thesis by blast
  next
    case (Some c)
    with Editor_run_attached [of p ps c w] show ?thesis by blast
  qed
  have final: "\<exists>i w'. Editor_run p ps host w = Inr (i, w') \<and>
      submitRef (refs i) = onSubmit (last (p # ps)) \<and>
      placeholderRef (refs i) =
        (case placeholder (last (p # ps)) of None \<Rightarrow> ''Write something...'' | Some s \<Rightarrow> s) \<and>
      defaultValueRef (refs i) =
        (case defaultValue (last (p # ps)) of None \<Rightarrow> OpArray [] | Some v \<Rightarrow> v) \<and>
      disabledRef (refs i) =
        (case disabled (last (p # ps)) of None \<Rightarrow> False | Some b \<Rightarrow> b)"
    using run
    unfolding synced_def placeholder_param_def defaultValue_param_def disabled_param_def
    by blast
  have at_mount: "submitRef (mount_before_paint p host) = onSubmit p \<and>
    placeholderRef (mount_before_paint p host) =
      (case placeholder p of None \<Rightarrow> ''Write something...'' | Some s \<Rightarrow> s) \<and>
    defaultValueRef (mount_before_paint p host) =
      (case defaultValue p of None \<Rightarrow> OpArray [] | Some v \<Rightarrow> v) \<and>
    disabledRef (mount_before_paint p host) =
      (case disabled p of None \<Rightarrow> False | Some b \<Rightarrow> b)"
    unfolding mount_before_paint_eq by (rule layout_effect_holds_props)
  have at_update: "submitRef (update_before_paint q j) = onSubmit q \<and>
    placeholderRef (update_before_paint q j) =
      (case placeholder q of None \<Rightarrow> ''Write something...'' | Some s \<Rightarrow> s) \<and>
    defaultValueRef (update_before_paint q j) =
      (case defaultValue q of None \<Rightarrow> OpArray [] | Some v \<Rightarrow> v) \<and>
    disabledRef (update_before_paint q j) =
      (case disabled q of None \<Rightarrow> False | Some b \<Rightarrow> b)"
    unfolding update_before_paint_eq by (rule layout_effect_holds_props)
  from final at_mount Editor_mount_refs [of p host w] at_update Editor_update_refs [of q j w]
  show ?thesis by blast
qed

text \<open>
  C6. Unmounting a component that was mounted on container \<open>c\<close>, in whatever world
  \<open>w''\<close> the unmount finds, assigns the empty string to the \<open>innerHTML\<close> of \<open>c\<close>,
  which removes all its content, and does nothing else: no other DOM call, and the rest of
  the world is as it was.
\<close>

theorem unmount_clears_container:
  "\<exists>i w'. Editor_run p ps (Some c) w = Inr (i, w') \<and>
     (\<forall>w''. Editor_unmount i w'' = w''\<lparr>dom_calls := dom_calls w'' @ [SetInnerHTML c '''']\<rparr>)"
proof -
  from Editor_run_attached [of p ps c w] obtain i where
    run: "Editor_run p ps (Some c) w = Inr (i, mounted c w)" and
    cl: "cleanup i = Some (creation_cleanup (Some c))"
    by blast
  have "Editor_unmount i w'' = w''\<lparr>dom_calls := dom_calls w'' @ [SetInnerHTML c '''']\<rparr>" for w''
    by (simp add: Editor_unmount_def cl creation_cleanup_def set_innerHTML_def)
  with run show ?thesis by blast
qed

text \<open>
  C9. With no container in the cell the creation effect returns at once: it leaves the world
  as it found it (no element, no widget), throws nothing and registers no cleanup, so that a
  later unmount does nothing either. A mount throws in no case, with or without a
  container.
\<close>

theorem detached_container_is_skipped:
  "creation_effect (r\<lparr>containerRef := None\<rparr>) w = Inr (w, None) \<and>
   (\<exists>i. Editor_mount p None w = Inr (i, w) \<and> cleanup i = None \<and> Editor_unmount i w' = w') \<and>
   (\<exists>i w''. Editor_mount p host w = Inr (i, w''))"
proof -
  have "creation_effect (r\<lparr>containerRef := None\<rparr>) w = Inr (w, None)"
    by (simp add: creation_effect_detached)
  moreover have "\<exists>i. Editor_mount p None w = Inr (i, w) \<and> cleanup i = None \<and>
      Editor_unmount i w' = w'"
    by (simp add: Editor_mount_detached Editor_unmount_def)
  moreover have "\<exists>i w''. Editor_mount p host w = Inr (i, w'')"
    by (cases host) (simp_all add: Editor_mount_attached Editor_mount_detached)
  ultimately show ?thesis by blast
qed


section \<open>Buttons and clicks\<close>

lemma buttons_Create:
  "variant_param p = Create \<Longrightarrow>
   map fst (buttons (Editor_render p)) =
     [\<lparr>btn_disabled = False, btn_size = Some ''icon-sm'', btn_variant = Some ''ghost'',
       btn_className = None, btn_onClick = empty_handler\<rparr>,
      \<lparr>btn_disabled = False, btn_size = Some ''icon-sm'', btn_variant = Some ''ghost'',
       btn_className = None, btn_onClick = empty_handler\<rparr>,
      \<lparr>btn_disabled = False, btn_size = Some ''icon-sm'', btn_variant = Some ''ghost'',
       btn_className = None, btn_onClick = empty_handler\<rparr>,
      \<lparr>btn_disabled = False, btn_size = Some ''icon-sm'', btn_variant = None,
       btn_className = Some ''ml-auto bg-[#007a5a] hover:bg-[007a5a]/80 text-white'',
       btn_onClick = empty_handler\<rparr>]"
  by (simp add: Editor_render_def)

lemma buttons_Update:
  "variant_param p = Update \<Longrightarrow>
   map fst (buttons (Editor_render p)) =
     [\<lparr>btn_disabled = False, btn_size = Some ''icon-sm'', btn_variant = Some ''ghost'',
       btn_className = None, btn_onClick = empty_handler\<rparr>,
      \<lparr>btn_disabled = False, btn_size = Some ''icon-sm'', btn_variant = Some ''ghost'',
       btn_className = None, btn_onClick = empty_handler\<rparr>,
      \<lparr>btn_disabled = False, btn_size = Some ''sm'', btn_variant = Some ''outline'',
       btn_className = None, btn_onClick = empty_handler\<rparr>,
      \<lparr>btn_disabled = False, btn_size = Some ''sm'', btn_variant = None,
       btn_className = Some ''bg-[#007a5a] hover:bg-[007a5a]/80 text-white'',
       btn_onClick = empty_handler\<rparr>]"
  by (simp add: Editor_render_def)

lemma rendered_button:
  assumes "b \<in> fst ` set (buttons (Editor_render p))"
  shows "btn_onClick b = empty_handler \<and> \<not> btn_disabled b"
proof -
  from assms have "b \<in> set (map fst (buttons (Editor_render p)))"
    by simp
  then show ?thesis
    by (cases "variant_param p") (auto simp: buttons_Create buttons_Update)
qed

lemma click_rendered_button:
  "b \<in> fst ` set (buttons (Editor_render p)) \<Longrightarrow> click b s = Inr s"
  using rendered_button [of b p] by (simp add: click_def empty_handler_def)

text \<open>
  C7. Whatever buttons of a render are clicked, in whatever order and however often, and
  whatever the state of the component's cells and of the world: the clicks end without an
  error and leave the cells and the world as they were; in particular the record of
  callback invocations gains no call of \<open>onSubmit\<close> or \<open>onCancel\<close>.
\<close>

theorem clicks_are_inert:
  "set bs \<subseteq> fst ` set (buttons (Editor_render p)) \<Longrightarrow> click_all bs s = Inr s"
proof (induction bs)
  case Nil
  show ?case by simp
next
  case (Cons b bs)
  from Cons.prems have "b \<in> fst ` set (buttons (Editor_render p))"
    by simp
  then have "click b s = Inr s"
    by (rule click_rendered_button)
  moreover from Cons.prems have "set bs \<subseteq> fst ` set (buttons (Editor_render p))"
    by simp
  then have "click_all bs s = Inr s"
    by (rule Cons.IH)
  ultimately show ?case by simp
qed

theorem clicks_are_inert_witness:
  "set sample_clicks \<subseteq> fst ` set (buttons (Editor_render sample_props)) \<and>
   length sample_clicks = 3 \<and>
   click_all sample_clicks (sample_refs, sample_world) = Inr (sample_refs, sample_world)"
proof -
  have h: "set sample_clicks \<subseteq> fst ` set (buttons (Editor_render sample_props))"
    by (simp add: sample_clicks_def Editor_render_def sample_props_def variant_param_def)
  from clicks_are_inert [OF h, of "(sample_refs, sample_world)"] h show ?thesis
    by (simp add: sample_clicks_def)
qed

text \<open>
  C8. Whatever the \<open>disabled\<close> prop is, a render has four buttons and each of them is
  passed \<open>disabled = false\<close>.
\<close>

theorem buttons_never_disabled:
  "map (\<lambda>(b, es). btn_disabled b) (buttons (Editor_render (p\<lparr>disabled := d\<rparr>))) =
     [False, False, False, False]"
proof -
  let ?q = "p\<lparr>disabled := d\<rparr>"
  have "map (\<lambda>(b, es). btn_disabled b) (buttons (Editor_render ?q)) =
      map btn_disabled (map fst (buttons (Editor_render ?q)))"
    by (simp add: case_prod_unfold)
  also have "\<dots> = [False, False, False, False]"
    by (cases "variant_param ?q") (simp_all only: buttons_Create buttons_Update, simp_all)
  finally show ?thesis .
qed

text \<open>
  C10. Two renders whose props agree on the variant (an omitted variant counting as
  \<open>create\<close>) return the same element tree, whatever their other props are.
\<close>

theorem render_depends_on_variant_only:
  "variant_param p = variant_param q \<Longrightarrow> Editor_render p = Editor_render q"
  by (simp add: Editor_render_def)

theorem render_depends_on_variant_only_witness:
  "variant_param sample_props = variant_param sample_create_props \<and>
   onSubmit sample_props \<noteq> onSubmit sample_create_props \<and>
   onCancel sample_props \<noteq> onCancel sample_create_props \<and>
   placeholder sample_props \<noteq> placeholder sample_create_props \<and>
   defaultValue sample_props \<noteq> defaultValue sample_create_props \<and>
   disabled sample_props \<noteq> disabled sample_create_props \<and>
   innerRef sample_props \<noteq> innerRef sample_create_props \<and>
   Editor_render sample_props = Editor_render sample_create_props"
proof -
  have h: "variant_param sample_props = variant_param sample_create_props"
    by (simp add: variant_param_def sample_props_def sample_create_props_def)
  from render_depends_on_variant_only [OF h] h show ?thesis
    by (simp add: sample_props_def sample_create_props_def)
qed

section \<open>What reaches the widget\<close>

text \<open>
  C2, as stated, fails: mounted with the default value \<open>[{insert: "hello"}]\<close>, the widget
  the creation effect constructs does not hold that document.
\<close>

theorem defaultValue_seed_counterexample:
  "q_contents (last (quills (snd (projr (Editor_mount sample_props (Some 0) sample_world)))))
     \<noteq> ops_of (defaultValue_param sample_props)"
  by (simp add: Editor_mount_attached mounted_def sample_world_def sample_props_def
      defaultValue_param_def)

text \<open>
  C2, amended. Whatever \<open>defaultValue\<close> is at the mount and in later renders, the one
  widget of the mount is constructed with the theme as its only option and holds the blank
  document, also after all the renders; the value is kept in \<open>defaultValueRef\<close> (the one of
  the last render) and goes nowhere else.
\<close>

theorem widget_starts_blank:
  "\<exists>i w'. Editor_run p ps (Some c) w = Inr (i, w') \<and>
     quills w' = quills w @
       [\<lparr>q_container = fresh w, q_options = \<lparr>theme = Some ''snow''\<rparr>, q_contents = []\<rparr>] \<and>
     defaultValueRef (refs i) =
       (case defaultValue (last (p # ps)) of None \<Rightarrow> OpArray [] | Some v \<Rightarrow> v)"
  using Editor_run_attached [of p ps c w]
  by (auto simp: mounted_def synced_def defaultValue_param_def)

text \<open>
  C3, as stated, fails: mounted with \<open>innerRef\<close> the cell 7, which holds \<open>null\<close>, the
  component constructs widget 0 and the cell still holds \<open>null\<close>.
\<close>

theorem innerRef_store_counterexample:
  "innerRef sample_props = Some 7 \<and>
   length (quills (snd (projr (Editor_mount sample_props (Some 0) sample_world)))) = 1 \<and>
   cells (snd (projr (Editor_mount sample_props (Some 0) sample_world))) 7
     \<noteq> Some (length (quills sample_world))"
  by (simp add: Editor_mount_attached mounted_def sample_world_def sample_props_def)

text \<open>
  C3, amended. The component writes no caller-owned cell: after the mount, after any
  renders and after the unmount every cell holds what it held before, whether or not
  \<open>innerRef\<close> was supplied. The widget it constructs is kept in no cell; its own
  \<open>quillRef\<close> stays \<open>null\<close> as well.
\<close>

theorem innerRef_never_written:
  "\<exists>i w'. Editor_run p ps host w = Inr (i, w') \<and>
     cells w' = cells w \<and>
     cells (Editor_unmount i w') = cells w \<and>
     quillRef (refs i) = None"
proof (cases host)
  case None
  with Editor_run_detached [of p ps w] show ?thesis
    by (auto simp: Editor_unmount_def)
next
  case (Some c)
  from Editor_run_attached [of p ps c w] obtain i where
    run: "Editor_run p ps (Some c) w = Inr (i, mounted c w)" and
    cl: "cleanup i = Some (creation_cleanup (Some c))" and
    qu: "quillRef (refs i) = None"
    by blast
  have "cells (mounted c w) = cells w"
    by (simp add: mounted_def)
  moreover have "cells (Editor_unmount i (mounted c w)) = cells w"
    by (simp add: Editor_unmount_def cl creation_cleanup_def set_innerHTML_def mounted_def)
  ultimately show ?thesis
    using run qu Some by auto
qed


end
